theory Spec2Isabelle
  imports Main
begin

section \<open>Strings, errors and the standard-library functions the script calls\<close>

text \<open>
  A Python \<open>str\<close> is a sequence of Unicode code points, so a string is a list of
  code points (natural numbers) and its length counts code points. \<open>py\<close> turns a
  literal into that representation.
\<close>

type_synonym str = "nat list"

definition py :: "string \<Rightarrow> str" where
  "py cs = map of_char cs"

text \<open>
  The exceptions a run can raise: \<open>ValueError\<close> (\<open>str.maketrans\<close> on arguments of
  different length), \<open>KeyError\<close> (a dictionary subscript on a missing key), and whatever
  \<open>open\<close> and \<open>nbformat.read\<close> raise, which carry a message.
\<close>

datatype error = ValueError | KeyError | IOError str | ParseError str

text \<open>
  \<open>string.punctuation\<close> by code point: the 32 printable ASCII characters that are
  neither letters nor digits nor the space, that is 33 to 47, 58 to 64, 91 to 96 and
  123 to 126.
\<close>

definition string_punctuation :: str where
  "string_punctuation =
     [33, 34, 35, 36, 37, 38, 39, 40, 41, 42, 43, 44, 45, 46, 47,
      58, 59, 60, 61, 62, 63, 64,
      91, 92, 93, 94, 95, 96,
      123, 124, 125, 126]"

text \<open>
  \<open>str.maketrans(x, y, z)\<close>: a table from code points to code points that maps the
  i-th character of \<open>x\<close> to the i-th of \<open>y\<close>, and then every character of \<open>z\<close> to
  \<open>None\<close>. It raises \<open>ValueError\<close> when \<open>x\<close> and \<open>y\<close> differ in length.
  \<open>str.translate\<close> keeps a character that has no entry, drops one mapped to \<open>None\<close>
  and replaces one mapped to a code point.
\<close>

definition maketrans :: "str \<Rightarrow> str \<Rightarrow> str \<Rightarrow> error + (nat \<rightharpoonup> nat option)" where
  "maketrans x y z =
     (if length x \<noteq> length y then Inl ValueError
      else Inr (fold (\<lambda>c t. t(c \<mapsto> None)) z
                 (fold (\<lambda>(a, b) t. t(a \<mapsto> Some b)) (zip x y) Map.empty)))"

definition translate :: "str \<Rightarrow> (nat \<rightharpoonup> nat option) \<Rightarrow> str" where
  "translate s table =
     concat (map (\<lambda>c. case table c of
                         None \<Rightarrow> [c]
                       | Some None \<Rightarrow> []
                       | Some (Some c') \<Rightarrow> [c']) s)"

text \<open>
  \<open>str.isspace\<close> on one code point, and \<open>str.split()\<close> without arguments: the maximal
  runs of non-whitespace characters, in order, none of them empty.
\<close>

definition isspace :: "nat \<Rightarrow> bool" where
  "isspace c =
     ((9 \<le> c \<and> c \<le> 13) \<or> (28 \<le> c \<and> c \<le> 32) \<or> c = 133 \<or> c = 160 \<or> c = 5760
      \<or> (8192 \<le> c \<and> c \<le> 8202) \<or> c = 8232 \<or> c = 8233 \<or> c = 8239 \<or> c = 8287
      \<or> c = 12288)"

fun split_from :: "str \<Rightarrow> str \<Rightarrow> str list" where
  "split_from cur [] = (if cur = [] then [] else [cur])"
| "split_from cur (c # cs) =
     (if isspace c then (if cur = [] then split_from [] cs else cur # split_from [] cs)
      else split_from (cur @ [c]) cs)"

definition split :: "str \<Rightarrow> str list" where
  "split s = split_from [] s"

text \<open>\<open>sep.join(xs)\<close>, \<open>s.startswith(p)\<close>, \<open>s.endswith(p)\<close>.\<close>

fun join :: "str \<Rightarrow> str list \<Rightarrow> str" where
  "join sep [] = []"
| "join sep [x] = x"
| "join sep (x # y # ys) = x @ sep @ join sep (y # ys)"

definition startswith :: "str \<Rightarrow> str \<Rightarrow> bool" where
  "startswith s p = (take (length p) s = p)"

definition endswith :: "str \<Rightarrow> str \<Rightarrow> bool" where
  "endswith s p = (length p \<le> length s \<and> drop (length s - length p) s = p)"

text \<open>\<open>os.path.join(a, b)\<close> of \<open>posixpath\<close>, for two components.\<close>

definition path_join :: "str \<Rightarrow> str \<Rightarrow> str" where
  "path_join a b =
     (if startswith b (py ''/'') then b
      else if a = [] \<or> endswith a (py ''/'') then a @ b
      else a @ py ''/'' @ b)"

section \<open>Dictionaries in insertion order\<close>

text \<open>
  A Python \<open>dict\<close> iterates in insertion order, and the report is printed by iterating
  one, so a dictionary is an association list: \<open>d[k] = v\<close> replaces the value of an
  existing key in place and appends a new key at the end; \<open>d[k]\<close> raises \<open>KeyError\<close>
  on a missing key; \<open>d.update(r)\<close> stores the items of \<open>r\<close> one by one.
\<close>

type_synonym report = "(str \<times> str set) list"

fun dict_set :: "'k \<Rightarrow> 'v \<Rightarrow> ('k \<times> 'v) list \<Rightarrow> ('k \<times> 'v) list" where
  "dict_set k v [] = [(k, v)]"
| "dict_set k v ((k', v') # d) =
     (if k' = k then (k', v) # d else (k', v') # dict_set k v d)"

definition dict_get :: "('k \<times> 'v) list \<Rightarrow> 'k \<Rightarrow> error + 'v" where
  "dict_get d k = (case map_of d k of None \<Rightarrow> Inl KeyError | Some v \<Rightarrow> Inr v)"

definition dict_contains :: "'k \<Rightarrow> ('k \<times> 'v) list \<Rightarrow> bool" where
  "dict_contains k d = (map_of d k \<noteq> None)"

definition dict_update :: "('k \<times> 'v) list \<Rightarrow> ('k \<times> 'v) list \<Rightarrow> ('k \<times> 'v) list" where
  "dict_update d r = fold (\<lambda>(k, v) acc. dict_set k v acc) r d"

section \<open>The environment of a run\<close>

text \<open>
  A notebook as \<open>nbformat.read\<close> returns it: its cells in order, each with the fields
  \<open>cell_type\<close> and \<open>source\<close> the script reads.
\<close>

record cell =
  cell_type :: str
  source :: str

record notebook =
  cells :: "cell list"

text \<open>
  What the script takes from outside its own code:
  \<^item> \<open>dictionary\<close>: the words the spelling library knows before any word is loaded;
  \<^item> \<open>read_notebook\<close>: \<open>open(filepath)\<close> followed by \<open>nbformat.read\<close>, which gives
    the notebook stored at a path or raises;
  \<^item> \<open>walk\<close>: the triples \<open>(subdir, dirs, files)\<close> that \<open>os.walk\<close> yields for a root,
    in the order it yields them;
  \<^item> \<open>set_iter\<close>: the order in which iterating a \<open>set\<close> of strings yields its elements
    (it depends on the strings' hashes, and \<open>join\<close> sees it).
\<close>

record env =
  dictionary :: "str set"
  read_notebook :: "str \<Rightarrow> error + notebook"
  walk :: "str \<Rightarrow> (str \<times> str list \<times> str list) list"
  set_iter :: "str set \<Rightarrow> str list"

section \<open>The spelling model\<close>

text \<open>
  The script uses the class \<open>SpellChecker\<close> of an external spelling library, whose code
  is not part of the repository. The spec describes it as a word-frequency collaborator
  that answers whether a word is known and lets additional known words be loaded in bulk.
\<close>

text \<open>
  Modelled from the spec: the state of a \<open>SpellChecker\<close> object, which is the set of words
  it knows.
\<close>

record SpellChecker =
  word_frequency :: "str set"

text \<open>
  Modelled from the spec: the constructor \<open>SpellChecker()\<close>, which knows the words of the
  default dictionary.
\<close>

definition new_SpellChecker :: "env \<Rightarrow> SpellChecker" where
  "new_SpellChecker e = \<lparr>word_frequency = dictionary e\<rparr>"

text \<open>
  Modelled from the spec: \<open>word_frequency.load_words(words)\<close>, which makes every given word
  known. The list it is given is a mutable object shared with the caller; the spec has the
  ignore list only read, so the value of the list after the call, returned beside the
  checker, is the value before.
\<close>

definition load_words :: "SpellChecker \<Rightarrow> str list \<Rightarrow> SpellChecker \<times> str list" where
  "load_words spell words =
     (spell\<lparr>word_frequency := word_frequency spell \<union> set words\<rparr>, words)"

text \<open>
  Modelled from the spec: \<open>unknown(words)\<close>, the set of the given tokens that are not known.
\<close>

definition unknown :: "SpellChecker \<Rightarrow> str list \<Rightarrow> str set" where
  "unknown spell ws = set (filter (\<lambda>w. w \<notin> word_frequency spell) ws)"

section \<open>The script\<close>

subsection \<open>\<open>remove_punctuation\<close>\<close>

definition remove_punctuation :: "str \<Rightarrow> error + str" where
  "remove_punctuation s =
     (case maketrans [] [] string_punctuation of
        Inl e \<Rightarrow> Inl e
      | Inr translator \<Rightarrow> Inr (translate s translator))"

subsection \<open>\<open>spell_check_notebook\<close>\<close>

text \<open>
  The body of the loop over the cells, on the dictionary \<open>misspelled_words\<close> built so
  far: a cell that is not markdown leaves it as it is; a markdown cell whose unknown set
  is empty too; otherwise the key \<open>filepath\<close> is created with the empty set when it is
  missing, and the unknown words are added to the set stored under it.
\<close>

definition check_cell :: "SpellChecker \<Rightarrow> str \<Rightarrow> cell \<Rightarrow> report \<Rightarrow> error + report" where
  "check_cell spell filepath c misspelled_words =
     (if cell_type c = py ''markdown'' then
        (case remove_punctuation (source c) of
           Inl e \<Rightarrow> Inl e
         | Inr s \<Rightarrow>
            (let misspelled = unknown spell (split s) in
             if misspelled \<noteq> {} then
               (let d = (if \<not> dict_contains filepath misspelled_words
                         then dict_set filepath {} misspelled_words
                         else misspelled_words)
                in case dict_get d filepath of
                     Inl e \<Rightarrow> Inl e
                   | Inr ws \<Rightarrow> Inr (dict_set filepath (ws \<union> misspelled) d))
             else Inr misspelled_words))
      else Inr misspelled_words)"

fun check_cells :: "SpellChecker \<Rightarrow> str \<Rightarrow> cell list \<Rightarrow> report \<Rightarrow> error + report" where
  "check_cells spell filepath [] misspelled_words = Inr misspelled_words"
| "check_cells spell filepath (c # cs) misspelled_words =
     (case check_cell spell filepath c misspelled_words of
        Inl e \<Rightarrow> Inl e
      | Inr d \<Rightarrow> check_cells spell filepath cs d)"

text \<open>
  The function returns the dictionary or raises; \<open>ignore_words\<close> is a list object the
  caller still holds, so its value after the call is returned beside the result.
\<close>

definition spell_check_notebook ::
    "env \<Rightarrow> str \<Rightarrow> str list \<Rightarrow> (error + report) \<times> str list" where
  "spell_check_notebook e filepath ignore_words =
     (let (spell, ignore_words') = load_words (new_SpellChecker e) ignore_words
      in case read_notebook e filepath of
           Inl err \<Rightarrow> (Inl err, ignore_words')
         | Inr nb \<Rightarrow> (check_cells spell filepath (cells nb) [], ignore_words'))"

subsection \<open>\<open>spell_check_directory\<close>\<close>

text \<open>
  The inner loop body (one file of one directory), the inner loop (the files of one
  directory) and the outer loop (the triples of the walk). Each carries the aggregate
  \<open>all_misspelled_words\<close> and the current value of the list \<open>ignore_words\<close>, and stops
  at the first exception.
\<close>

definition check_file ::
    "env \<Rightarrow> str \<Rightarrow> str \<Rightarrow> report \<Rightarrow> str list \<Rightarrow> (error + report) \<times> str list" where
  "check_file e subdir file all_misspelled_words ignore_words =
     (if endswith file (py ''.ipynb'') then
        (let filepath = path_join subdir file
         in case spell_check_notebook e filepath ignore_words of
              (Inl err, ignore_words') \<Rightarrow> (Inl err, ignore_words')
            | (Inr result, ignore_words') \<Rightarrow>
                (Inr (if result \<noteq> [] then dict_update all_misspelled_words result
                      else all_misspelled_words), ignore_words'))
      else (Inr all_misspelled_words, ignore_words))"

fun check_files ::
    "env \<Rightarrow> str \<Rightarrow> str list \<Rightarrow> report \<Rightarrow> str list \<Rightarrow> (error + report) \<times> str list" where
  "check_files e subdir [] all_misspelled_words ignore_words =
     (Inr all_misspelled_words, ignore_words)"
| "check_files e subdir (file # files) all_misspelled_words ignore_words =
     (case check_file e subdir file all_misspelled_words ignore_words of
        (Inl err, ignore_words') \<Rightarrow> (Inl err, ignore_words')
      | (Inr d, ignore_words') \<Rightarrow> check_files e subdir files d ignore_words')"

fun check_walk ::
    "env \<Rightarrow> (str \<times> str list \<times> str list) list \<Rightarrow> report \<Rightarrow> str list
      \<Rightarrow> (error + report) \<times> str list" where
  "check_walk e [] all_misspelled_words ignore_words =
     (Inr all_misspelled_words, ignore_words)"
| "check_walk e ((subdir, dirs, files) # rest) all_misspelled_words ignore_words =
     (case check_files e subdir files all_misspelled_words ignore_words of
        (Inl err, ignore_words') \<Rightarrow> (Inl err, ignore_words')
      | (Inr d, ignore_words') \<Rightarrow> check_walk e rest d ignore_words')"

text \<open>
  How a call ends: it returns, it leaves through \<open>sys.exit\<close> with a status, or an
  exception escapes it. The exit status of the process follows: 0 after a normal return
  of the entry point, the argument of \<open>sys.exit\<close>, and 1 for an uncaught exception.
\<close>

datatype outcome = Returned | Exit nat | Raised error

fun exit_status :: "outcome \<Rightarrow> nat" where
  "exit_status Returned = 0"
| "exit_status (Exit n) = n"
| "exit_status (Raised err) = 1"

text \<open>
  A run of \<open>spell_check_directory\<close>: how it ended, the strings passed to \<open>print\<close> in
  order (one per call), and the value of the list \<open>ignore_words\<close> afterwards.
\<close>

record run =
  outcome :: outcome
  printed :: "str list"
  ignore_after :: "str list"

definition report_line :: "env \<Rightarrow> str \<times> str set \<Rightarrow> str" where
  "report_line e item =
     (case item of (filepath, words) \<Rightarrow>
        py ''Misspelled words in '' @ filepath @ py '': '' @ join (py '', '') (set_iter e words))"

definition spell_check_directory :: "env \<Rightarrow> str \<Rightarrow> str list \<Rightarrow> run" where
  "spell_check_directory e directory ignore_words =
     (case check_walk e (walk e directory) [] ignore_words of
        (Inl err, ignore_words') \<Rightarrow>
          \<lparr>outcome = Raised err, printed = [], ignore_after = ignore_words'\<rparr>
      | (Inr all_misspelled_words, ignore_words') \<Rightarrow>
          (if all_misspelled_words \<noteq> [] then
             \<lparr>outcome = Exit 1, printed = map (report_line e) all_misspelled_words,
              ignore_after = ignore_words'\<rparr>
           else \<lparr>outcome = Returned, printed = [], ignore_after = ignore_words'\<rparr>))"

definition main :: "env \<Rightarrow> run" where
  "main e = spell_check_directory e (py ''.'') []"

section \<open>Vocabulary of the properties\<close>

text \<open>The tokens of a cell's text: punctuation removed, then split at whitespace.\<close>

definition tokens :: "str \<Rightarrow> str list" where
  "tokens s = (case remove_punctuation s of Inl e \<Rightarrow> [] | Inr t \<Rightarrow> split t)"

text \<open>
  A token of a markdown cell of the notebook that is neither in the dictionary nor in
  the ignore list.
\<close>

definition unknown_tokens :: "env \<Rightarrow> str list \<Rightarrow> notebook \<Rightarrow> str set" where
  "unknown_tokens e ignore_words nb =
     (\<Union>c \<in> set (filter (\<lambda>c. cell_type c = py ''markdown'') (cells nb)).
        set (filter (\<lambda>t. t \<notin> dictionary e \<and> t \<notin> set ignore_words) (tokens (source c))))"

definition has_unknown_token :: "env \<Rightarrow> str list \<Rightarrow> str \<Rightarrow> bool" where
  "has_unknown_token e ignore_words filepath =
     (case read_notebook e filepath of
        Inl err \<Rightarrow> False
      | Inr nb \<Rightarrow> unknown_tokens e ignore_words nb \<noteq> {})"

text \<open>The paths the traversal hands to \<open>spell_check_notebook\<close>, in order.\<close>

definition notebook_paths :: "(str \<times> str list \<times> str list) list \<Rightarrow> str list" where
  "notebook_paths triples =
     concat (map (\<lambda>(subdir, dirs, files).
                    map (path_join subdir) (filter (\<lambda>file. endswith file (py ''.ipynb'')) files))
                 triples)"

section \<open>Auxiliary definitions for the proofs\<close>

text \<open>
  The dictionary \<open>spell_check_notebook\<close> holds while it runs is empty or has the one
  key \<open>filepath\<close> with a non-empty set: \<open>single filepath ws\<close> is that dictionary
  for the set \<open>ws\<close> of words found so far.
\<close>

definition single :: "str \<Rightarrow> str set \<Rightarrow> report" where
  "single filepath ws = (if ws = {} then [] else [(filepath, ws)])"

text \<open>
  The two nested loops of \<open>spell_check_directory\<close> visit the notebook paths one after
  the other; \<open>check_paths\<close> is that single loop over a list of paths.
\<close>

fun check_paths :: "env \<Rightarrow> str list \<Rightarrow> report \<Rightarrow> str list \<Rightarrow> (error + report) \<times> str list" where
  "check_paths e [] d ignore_words = (Inr d, ignore_words)"
| "check_paths e (p # ps) d ignore_words =
     (case spell_check_notebook e p ignore_words of
        (Inl err, ignore_words') \<Rightarrow> (Inl err, ignore_words')
      | (Inr r, ignore_words') \<Rightarrow>
          check_paths e ps (if r \<noteq> [] then dict_update d r else d) ignore_words')"

section \<open>Two concrete environments\<close>

text \<open>
  A tree with the notebooks \<open>./a.ipynb\<close> (one markdown cell, two misspelled words),
  \<open>./sub/b.ipynb\<close> (one markdown cell, correctly spelled apart from punctuation) and
  \<open>./sub/c.ipynb\<close> (one code cell holding the misspelled text), a text file, and a
  directory \<open>docs\<close> without notebooks. In \<open>broken_env\<close> the second notebook cannot
  be parsed.
\<close>

definition demo_env :: env where
  "demo_env =
     \<lparr>dictionary = {py ''hello'', py ''world''},
      read_notebook = (\<lambda>p.
        if p = py ''./a.ipynb'' then
          Inr \<lparr>cells = [\<lparr>cell_type = py ''markdown'', source = py ''Helllo wrold''\<rparr>]\<rparr>
        else if p = py ''./sub/b.ipynb'' then
          Inr \<lparr>cells = [\<lparr>cell_type = py ''markdown'', source = py ''hello, world!''\<rparr>]\<rparr>
        else if p = py ''./sub/c.ipynb'' then
          Inr \<lparr>cells = [\<lparr>cell_type = py ''code'', source = py ''Helllo wrold''\<rparr>]\<rparr>
        else Inl (IOError p)),
      walk = (\<lambda>d.
        if d = py ''.'' then
          [(py ''.'', [py ''sub''], [py ''a.ipynb'', py ''notes.txt'']),
           (py ''./sub'', [], [py ''b.ipynb'', py ''c.ipynb''])]
        else if d = py ''docs'' then [(py ''docs'', [], [py ''README.md''])]
        else []),
      set_iter = (\<lambda>ws. filter (\<lambda>w. w \<in> ws) [py ''wrold'', py ''Helllo''])\<rparr>"

definition broken_env :: env where
  "broken_env =
     demo_env\<lparr>read_notebook := (\<lambda>p.
        if p = py ''./sub/b.ipynb'' then Inl (ParseError p) else read_notebook demo_env p)\<rparr>"

section \<open>The spelling library as it runs\<close>

text \<open>
  The script builds the checker with \<open>SpellChecker()\<close>, that is with the library's
  defaults, and with them the library is not case sensitive: it stores and compares
  words in lower case. \<open>load_words\<close> stores the given words lower-cased; \<open>unknown\<close>
  first drops the tokens the library does not check at all (numbers, tokens much longer
  than any word it knows), lower-cases the others and returns those that are not known,
  in their lower-case form. The code of the library is not part of the repository: which
  tokens it checks is taken as the parameter \<open>checks\<close>, and \<open>lower\<close> is \<open>str.lower\<close> on
  the ASCII letters (other code points are left as they are, the Unicode case mapping is
  not modelled).
\<close>

definition lower :: "str \<Rightarrow> str" where
  "lower s = map (\<lambda>c. if 65 \<le> c \<and> c \<le> 90 then c + 32 else c) s"

definition load_words_folding :: "SpellChecker \<Rightarrow> str list \<Rightarrow> SpellChecker \<times> str list" where
  "load_words_folding spell words =
     (spell\<lparr>word_frequency := word_frequency spell \<union> set (map lower words)\<rparr>, words)"

definition unknown_folding :: "(str \<Rightarrow> bool) \<Rightarrow> SpellChecker \<Rightarrow> str list \<Rightarrow> str set" where
  "unknown_folding checks spell ws =
     set (filter (\<lambda>w. w \<notin> word_frequency spell) (map lower (filter checks ws)))"

text \<open>
  \<open>spell_check_notebook\<close> once more, line by line as above, with the library as it runs
  in the two places where the script calls it.
\<close>

definition check_cell_folding ::
    "(str \<Rightarrow> bool) \<Rightarrow> SpellChecker \<Rightarrow> str \<Rightarrow> cell \<Rightarrow> report \<Rightarrow> error + report" where
  "check_cell_folding checks spell filepath c misspelled_words =
     (if cell_type c = py ''markdown'' then
        (case remove_punctuation (source c) of
           Inl e \<Rightarrow> Inl e
         | Inr s \<Rightarrow>
            (let misspelled = unknown_folding checks spell (split s) in
             if misspelled \<noteq> {} then
               (let d = (if \<not> dict_contains filepath misspelled_words
                         then dict_set filepath {} misspelled_words
                         else misspelled_words)
                in case dict_get d filepath of
                     Inl e \<Rightarrow> Inl e
                   | Inr ws \<Rightarrow> Inr (dict_set filepath (ws \<union> misspelled) d))
             else Inr misspelled_words))
      else Inr misspelled_words)"

fun check_cells_folding ::
    "(str \<Rightarrow> bool) \<Rightarrow> SpellChecker \<Rightarrow> str \<Rightarrow> cell list \<Rightarrow> report \<Rightarrow> error + report" where
  "check_cells_folding checks spell filepath [] misspelled_words = Inr misspelled_words"
| "check_cells_folding checks spell filepath (c # cs) misspelled_words =
     (case check_cell_folding checks spell filepath c misspelled_words of
        Inl e \<Rightarrow> Inl e
      | Inr d \<Rightarrow> check_cells_folding checks spell filepath cs d)"

definition spell_check_notebook_folding ::
    "(str \<Rightarrow> bool) \<Rightarrow> env \<Rightarrow> str \<Rightarrow> str list \<Rightarrow> (error + report) \<times> str list" where
  "spell_check_notebook_folding checks e filepath ignore_words =
     (let (spell, ignore_words') = load_words_folding (new_SpellChecker e) ignore_words
      in case read_notebook e filepath of
           Inl err \<Rightarrow> (Inl err, ignore_words')
         | Inr nb \<Rightarrow>
             (check_cells_folding checks spell filepath (cells nb) [], ignore_words'))"

text \<open>
  For the concrete environment: the library checks the tokens that are at most three
  characters longer than its longest word, which has five characters there.
\<close>

definition demo_checks :: "str \<Rightarrow> bool" where
  "demo_checks w = (length w \<le> 5 + 3)"

section \<open>Properties of the library functions and of \<open>remove_punctuation\<close>\<close>

lemma deletion_table:
  "fold (\<lambda>c t. t(c \<mapsto> None)) z t0 c = (if c \<in> set z then Some None else t0 c)"
  by (induction z arbitrary: t0) auto

lemma translate_deletion:
  assumes "\<And>c. table c = (if c \<in> P then Some None else None)"
  shows "translate s table = filter (\<lambda>c. c \<notin> P) s"
  using assms by (induction s) (auto simp: translate_def)

lemma remove_punctuation_filter:
  "remove_punctuation s = Inr (filter (\<lambda>c. c \<notin> set string_punctuation) s)"
  by (simp add: remove_punctuation_def maketrans_def translate_deletion deletion_table)

lemma isspace_not_punctuation: "isspace c \<Longrightarrow> c \<notin> set string_punctuation"
  by (auto simp: isspace_def string_punctuation_def)

lemma tokens_filter: "tokens s = split (filter (\<lambda>c. c \<notin> set string_punctuation) s)"
  by (simp add: tokens_def remove_punctuation_filter)

lemma check_cell_single:
  "check_cell spell filepath c (single filepath ws) =
     Inr (single filepath
            (ws \<union> (if cell_type c = py ''markdown'' then unknown spell (tokens (source c)) else {})))"
  by (auto simp: check_cell_def single_def remove_punctuation_filter tokens_filter
        dict_contains_def dict_get_def Let_def)

lemma check_cells_single:
  "check_cells spell filepath cs (single filepath ws) =
     Inr (single filepath
            (ws \<union> (\<Union>c \<in> set (filter (\<lambda>c. cell_type c = py ''markdown'') cs).
                     unknown spell (tokens (source c)))))"
proof (induction cs arbitrary: ws)
  case Nil
  then show ?case by simp
next
  case (Cons c cs)
  show ?case
    by (simp add: check_cell_single Cons.IH Un_assoc)
qed

lemma unknown_loaded:
  "unknown (fst (load_words (new_SpellChecker e) ignore_words)) ws =
     set (filter (\<lambda>t. t \<notin> dictionary e \<and> t \<notin> set ignore_words) ws)"
  by (simp add: unknown_def load_words_def new_SpellChecker_def)

lemma spell_check_notebook_eq:
  "spell_check_notebook e filepath ignore_words =
     (case read_notebook e filepath of
        Inl err \<Rightarrow> (Inl err, ignore_words)
      | Inr nb \<Rightarrow> (Inr (single filepath (unknown_tokens e ignore_words nb)), ignore_words))"
proof -
  have "check_cells (fst (load_words (new_SpellChecker e) ignore_words)) filepath cs [] =
          Inr (single filepath
            (\<Union>c \<in> set (filter (\<lambda>c. cell_type c = py ''markdown'') cs).
               set (filter (\<lambda>t. t \<notin> dictionary e \<and> t \<notin> set ignore_words) (tokens (source c)))))"
    for cs
    using check_cells_single [of _ filepath cs "{}"] by (simp add: single_def unknown_loaded)
  then show ?thesis
    by (simp add: spell_check_notebook_def unknown_tokens_def split_def load_words_def
          split: sum.splits)
qed


lemma tokens_helllo_wrold:
  "tokens (py ''Helllo wrold'') = [py ''Helllo'', py ''wrold'']"
proof -
  have "filter (\<lambda>c. c \<notin> set string_punctuation) (py ''Helllo wrold'') = py ''Helllo wrold''"
    by (simp add: py_def string_punctuation_def)
  moreover have "split (py ''Helllo wrold'') = [py ''Helllo'', py ''wrold'']"
    by (simp add: py_def split_def isspace_def)
  ultimately show ?thesis by (simp only: tokens_filter)
qed

lemma filter_isspace_kept:
  "filter isspace (filter (\<lambda>c. c \<notin> set string_punctuation) s) = filter isspace s"
  by (induction s) (auto dest: isspace_not_punctuation)

lemma finite_unknown_tokens: "finite (unknown_tokens e ignore_words nb)"
  by (simp add: unknown_tokens_def)

section \<open>Properties of the traversal\<close>

lemma dict_update_single:
  "dict_update d (single filepath ws) = (if ws = {} then d else dict_set filepath ws d)"
  by (simp add: dict_update_def single_def)

lemma keys_dict_set: "fst ` set (dict_set k v d) = insert k (fst ` set d)"
  by (induction k v d rule: dict_set.induct) (simp_all add: insert_commute)

lemma distinct_dict_set:
  "distinct (map fst d) \<Longrightarrow> distinct (map fst (dict_set k v d))"
proof (induction d)
  case Nil
  then show ?case by simp
next
  case (Cons a d)
  then show ?case
    using keys_dict_set [of k v d] by (cases a) auto
qed

lemma check_paths_append:
  "check_paths e (ps @ qs) d ignore_words =
     (case check_paths e ps d ignore_words of
        (Inl err, ignore_words') \<Rightarrow> (Inl err, ignore_words')
      | (Inr d', ignore_words') \<Rightarrow> check_paths e qs d' ignore_words')"
  by (induction ps arbitrary: d ignore_words) (auto split: prod.splits sum.splits)

lemma check_files_paths:
  "check_files e subdir files d ignore_words =
     check_paths e (map (path_join subdir) (filter (\<lambda>file. endswith file (py ''.ipynb'')) files))
       d ignore_words"
  by (induction files arbitrary: d ignore_words)
     (auto simp: check_file_def Let_def split: prod.splits sum.splits)

lemma check_walk_paths:
  "check_walk e triples d ignore_words = check_paths e (notebook_paths triples) d ignore_words"
proof (induction triples arbitrary: d ignore_words)
  case Nil
  then show ?case by (simp add: notebook_paths_def)
next
  case (Cons t triples)
  obtain subdir dirs files where t: "t = (subdir, dirs, files)"
    by (cases t) auto
  have "notebook_paths (t # triples) =
          map (path_join subdir) (filter (\<lambda>file. endswith file (py ''.ipynb'')) files)
            @ notebook_paths triples"
    by (simp add: notebook_paths_def t)
  then show ?case
    using Cons.IH by (simp add: t check_paths_append check_files_paths split: prod.splits sum.splits)
qed

lemma check_paths_step:
  "check_paths e (p # ps) d ignore_words =
     (case read_notebook e p of
        Inl err \<Rightarrow> (Inl err, ignore_words)
      | Inr nb \<Rightarrow>
          check_paths e ps
            (if unknown_tokens e ignore_words nb = {} then d
             else dict_set p (unknown_tokens e ignore_words nb) d) ignore_words)"
  by (simp add: spell_check_notebook_eq single_def dict_update_def split: sum.splits)

lemma check_paths_ignore: "snd (check_paths e ps d ignore_words) = ignore_words"
  by (induction ps arbitrary: d) (simp_all add: check_paths_step del: check_paths.simps(2) split: sum.splits)

lemma check_paths_keys:
  assumes "check_paths e ps d ignore_words = (Inr d', ignore_words')"
  shows "fst ` set d' =
           fst ` set d \<union> {p \<in> set ps. has_unknown_token e ignore_words p}"
  using assms
proof (induction ps arbitrary: d)
  case Nil
  then show ?case by simp
next
  case (Cons p ps)
  show ?case
  proof (cases "read_notebook e p")
    case (Inl err)
    then show ?thesis
      using Cons.prems by (simp add: check_paths_step del: check_paths.simps(2))
  next
    case (Inr nb)
    let ?d = "if unknown_tokens e ignore_words nb = {} then d
              else dict_set p (unknown_tokens e ignore_words nb) d"
    have "check_paths e ps ?d ignore_words = (Inr d', ignore_words')"
      using Cons.prems Inr by (simp add: check_paths_step del: check_paths.simps(2))
    then have "fst ` set d' =
        fst ` set ?d \<union> {p \<in> set ps. has_unknown_token e ignore_words p}"
      by (rule Cons.IH)
    moreover have "fst ` set ?d =
        fst ` set d \<union> {q \<in> {p}. has_unknown_token e ignore_words q}"
      using Inr
      by (cases "unknown_tokens e ignore_words nb = {}")
         (auto simp: has_unknown_token_def keys_dict_set)
    ultimately show ?thesis by auto
  qed
qed

lemma check_paths_distinct:
  assumes "check_paths e ps d ignore_words = (Inr d', ignore_words')"
    and "distinct (map fst d)"
  shows "distinct (map fst d')"
  using assms
proof (induction ps arbitrary: d)
  case Nil
  then show ?case by simp
next
  case (Cons p ps)
  show ?case
  proof (cases "read_notebook e p")
    case (Inl err)
    then show ?thesis
      using Cons.prems by (simp add: check_paths_step del: check_paths.simps(2))
  next
    case (Inr nb)
    let ?d = "if unknown_tokens e ignore_words nb = {} then d
              else dict_set p (unknown_tokens e ignore_words nb) d"
    have "check_paths e ps ?d ignore_words = (Inr d', ignore_words')"
      using Cons.prems Inr by (simp add: check_paths_step del: check_paths.simps(2))
    moreover have "distinct (map fst ?d)"
      using Cons.prems(2) by (simp add: distinct_dict_set)
    ultimately show ?thesis by (rule Cons.IH)
  qed
qed

lemma check_paths_error:
  assumes "\<forall>q \<in> set qs. \<not> isl (read_notebook e q)"
    and "read_notebook e p = Inl err"
  shows "check_paths e (qs @ p # rs) d ignore_words = (Inl err, ignore_words)"
  using assms
proof (induction qs arbitrary: d)
  case Nil
  then show ?case by (simp add: check_paths_step del: check_paths.simps(2))
next
  case (Cons q qs)
  then show ?case
    by (cases "read_notebook e q") (simp_all add: check_paths_step del: check_paths.simps(2))
qed

lemma no_notebook_paths:
  assumes "\<forall>(subdir, dirs, files) \<in> set triples. \<forall>file \<in> set files. \<not> endswith file (py ''.ipynb'')"
  shows "notebook_paths triples = []"
  using assms by (auto simp: notebook_paths_def filter_empty_conv)

lemma check_walk_ignore: "snd (check_walk e triples d ignore_words) = ignore_words"
  by (simp add: check_walk_paths check_paths_ignore)

section \<open>Evaluation of the concrete environments\<close>

lemma demo_paths:
  "notebook_paths (walk demo_env (py ''.'')) =
     [py ''./a.ipynb'', py ''./sub/b.ipynb'', py ''./sub/c.ipynb'']"
  by (simp add: demo_env_def notebook_paths_def endswith_def startswith_def path_join_def py_def)

lemma demo_docs_paths: "notebook_paths (walk demo_env (py ''docs'')) = []"
  by (simp add: demo_env_def notebook_paths_def endswith_def py_def)

lemma tokens_hello_world: "tokens (py ''hello, world!'') = [py ''hello'', py ''world'']"
proof -
  have "filter (\<lambda>c. c \<notin> set string_punctuation) (py ''hello, world!'') = py ''hello world''"
    by (simp add: py_def string_punctuation_def)
  moreover have "split (py ''hello world'') = [py ''hello'', py ''world'']"
    by (simp add: py_def split_def isspace_def)
  ultimately show ?thesis by (simp only: tokens_filter)
qed

lemma demo_read_a:
  "read_notebook demo_env (py ''./a.ipynb'') =
     Inr \<lparr>cells = [\<lparr>cell_type = py ''markdown'', source = py ''Helllo wrold''\<rparr>]\<rparr>"
  by (simp add: demo_env_def)

lemma demo_read_b:
  "read_notebook demo_env (py ''./sub/b.ipynb'') =
     Inr \<lparr>cells = [\<lparr>cell_type = py ''markdown'', source = py ''hello, world!''\<rparr>]\<rparr>"
  by (simp add: demo_env_def py_def)

lemma demo_read_c:
  "read_notebook demo_env (py ''./sub/c.ipynb'') =
     Inr \<lparr>cells = [\<lparr>cell_type = py ''code'', source = py ''Helllo wrold''\<rparr>]\<rparr>"
  by (simp add: demo_env_def py_def)

lemma demo_dictionary: "dictionary demo_env = {py ''hello'', py ''world''}"
  by (simp add: demo_env_def)

lemma py_neq:
  "py ''Helllo'' \<noteq> py ''hello''" "py ''Helllo'' \<noteq> py ''world''"
  "py ''wrold'' \<noteq> py ''hello''" "py ''wrold'' \<noteq> py ''world''"
  "py ''hello'' \<noteq> py ''world''" "py ''Helllo'' \<noteq> py ''wrold''"
  "py ''code'' \<noteq> py ''markdown''"
  by (simp_all add: py_def)

lemma demo_unknown_a:
  "unknown_tokens demo_env []
     \<lparr>cells = [\<lparr>cell_type = py ''markdown'', source = py ''Helllo wrold''\<rparr>]\<rparr> =
   {py ''Helllo'', py ''wrold''}"
  by (simp add: unknown_tokens_def tokens_helllo_wrold demo_dictionary py_neq)

lemma demo_unknown_b:
  "unknown_tokens demo_env []
     \<lparr>cells = [\<lparr>cell_type = py ''markdown'', source = py ''hello, world!''\<rparr>]\<rparr> = {}"
  by (simp add: unknown_tokens_def tokens_hello_world demo_dictionary)

lemma demo_unknown_c:
  "unknown_tokens demo_env []
     \<lparr>cells = [\<lparr>cell_type = py ''code'', source = py ''Helllo wrold''\<rparr>]\<rparr> = {}"
  by (simp add: unknown_tokens_def py_neq)

lemma demo_check_walk:
  "check_walk demo_env (walk demo_env (py ''.'')) [] [] =
     (Inr [(py ''./a.ipynb'', {py ''Helllo'', py ''wrold''})], [])"
  by (simp add: check_walk_paths demo_paths check_paths_step demo_read_a demo_read_b demo_read_c
        demo_unknown_a demo_unknown_b demo_unknown_c del: check_paths.simps(2))

lemma demo_line:
  "report_line demo_env (py ''./a.ipynb'', {py ''Helllo'', py ''wrold''}) =
     py ''Misspelled words in ./a.ipynb: wrold, Helllo''"
  by (simp add: report_line_def demo_env_def py_def)

lemma demo_check_a:
  "spell_check_notebook demo_env (py ''./a.ipynb'') [] =
     (Inr [(py ''./a.ipynb'', {py ''Helllo'', py ''wrold''})], [])"
  by (simp add: spell_check_notebook_eq demo_read_a demo_unknown_a single_def)

section \<open>One markdown cell with the library as it runs\<close>

lemma folding_helllo_wrold:
  assumes "read_notebook e filepath =
             Inr \<lparr>cells = [\<lparr>cell_type = py ''markdown'', source = py ''Helllo wrold''\<rparr>]\<rparr>"
    and "checks (py ''Helllo'')" and "checks (py ''wrold'')"
    and "py ''helllo'' \<notin> dictionary e" and "py ''wrold'' \<notin> dictionary e"
  shows "spell_check_notebook_folding checks e filepath [] =
           (Inr [(filepath, {py ''helllo'', py ''wrold''})], [])"
proof -
  have toks: "split (filter (\<lambda>c. c \<notin> set string_punctuation) (py ''Helllo wrold'')) =
                [py ''Helllo'', py ''wrold'']"
    using tokens_helllo_wrold by (simp only: tokens_filter)
  have low: "lower (py ''Helllo'') = py ''helllo''" "lower (py ''wrold'') = py ''wrold''"
    by (simp_all add: lower_def py_def)
  have unk: "unknown_folding checks \<lparr>word_frequency = dictionary e\<rparr>
               [py ''Helllo'', py ''wrold''] = {py ''helllo'', py ''wrold''}"
    using assms(2-5) by (simp add: unknown_folding_def low)
  have "check_cell_folding checks \<lparr>word_frequency = dictionary e\<rparr> filepath
          \<lparr>cell_type = py ''markdown'', source = py ''Helllo wrold''\<rparr> [] =
        Inr [(filepath, {py ''helllo'', py ''wrold''})]"
    unfolding check_cell_folding_def
    by (simp add: remove_punctuation_filter toks unk dict_contains_def dict_get_def Let_def)
  then show ?thesis
    using assms(1)
    by (simp add: spell_check_notebook_folding_def load_words_folding_def new_SpellChecker_def)
qed

section \<open>The claims about \<open>remove_punctuation\<close>\<close>

text \<open>
  Claim C1. On every string \<open>remove_punctuation\<close> returns (it raises nothing), and what it
  returns is the input with exactly the characters of \<open>string.punctuation\<close> deleted:
  every other character is kept, unchanged and in order. In particular the whitespace
  characters of the input are all kept, and the empty string gives the empty string.
\<close>

theorem remove_punctuation_removes_exactly_punctuation:
  "remove_punctuation s = Inr (filter (\<lambda>c. c \<notin> set string_punctuation) s)
   \<and> filter isspace (filter (\<lambda>c. c \<notin> set string_punctuation) s) = filter isspace s
   \<and> remove_punctuation [] = Inr []"
  using remove_punctuation_filter [of s] filter_isspace_kept [of s]
  by (simp add: remove_punctuation_filter del: filter_filter)

theorem remove_punctuation_removes_exactly_punctuation_witness:
  "remove_punctuation (py ''Hello, world! (ok)'') = Inr (py ''Hello world ok'')"
  using remove_punctuation_removes_exactly_punctuation [of "py ''Hello, world! (ok)''"]
  by (simp add: py_def string_punctuation_def)

text \<open>
  Claim C9. \<open>remove_punctuation\<close> is idempotent: applying it to its own result gives
  that result again, on every string (and it always has a result).
\<close>

theorem remove_punctuation_idempotent:
  "(case remove_punctuation s of Inl e \<Rightarrow> Inl e | Inr t \<Rightarrow> remove_punctuation t)
     = remove_punctuation s
   \<and> (\<exists>t. remove_punctuation s = Inr t)"
  by (simp add: remove_punctuation_filter)

theorem remove_punctuation_idempotent_witness:
  "remove_punctuation (py ''a.b'') = Inr (py ''ab'')
   \<and> remove_punctuation (py ''ab'') = Inr (py ''ab'')"
proof -
  have first: "remove_punctuation (py ''a.b'') = Inr (py ''ab'')"
    by (simp add: remove_punctuation_filter py_def string_punctuation_def)
  then show ?thesis
    using remove_punctuation_idempotent [of "py ''a.b''"] by simp
qed

section \<open>The claims about \<open>spell_check_notebook\<close>\<close>

text \<open>
  Claim C2, as amended. When the document at \<open>filepath\<close> consists of one markdown cell
  with the source text "Helllo wrold", the ignore list is empty, the library checks both
  tokens and neither token, lower-cased, is in the default dictionary,
  \<open>spell_check_notebook\<close> returns the mapping with the single key \<open>filepath\<close>, whose set
  is exactly {"helllo", "wrold"}: the words are reported in the lower-case form the
  library returns, not as they are written in the cell.
\<close>

theorem helllo_wrold_report_lower_cased:
  assumes "read_notebook e filepath =
             Inr \<lparr>cells = [\<lparr>cell_type = py ''markdown'', source = py ''Helllo wrold''\<rparr>]\<rparr>"
    and "checks (py ''Helllo'')" and "checks (py ''wrold'')"
    and "py ''helllo'' \<notin> dictionary e" and "py ''wrold'' \<notin> dictionary e"
  shows "spell_check_notebook_folding checks e filepath [] =
           (Inr [(filepath, {py ''helllo'', py ''wrold''})], [])"
  using assms by (rule folding_helllo_wrold)

theorem helllo_wrold_report_lower_cased_witness:
  "spell_check_notebook_folding demo_checks demo_env (py ''./a.ipynb'') [] =
     (Inr [(py ''./a.ipynb'', {py ''helllo'', py ''wrold''})], [])"
proof (rule helllo_wrold_report_lower_cased)
  show "read_notebook demo_env (py ''./a.ipynb'') =
          Inr \<lparr>cells = [\<lparr>cell_type = py ''markdown'', source = py ''Helllo wrold''\<rparr>]\<rparr>"
    by (rule demo_read_a)
  show "demo_checks (py ''Helllo'')" and "demo_checks (py ''wrold'')"
    by (simp_all add: demo_checks_def py_def)
  show "py ''helllo'' \<notin> dictionary demo_env" and "py ''wrold'' \<notin> dictionary demo_env"
    by (simp_all add: demo_dictionary py_def)
qed

text \<open>
  The claim as the spec states it fails: in the concrete environment the document is the
  one markdown cell "Helllo wrold", the ignore list is empty and neither "Helllo" nor
  "wrold" is in the dictionary, yet the set returned is not {"Helllo", "wrold"}.
\<close>

theorem helllo_wrold_report_counterexample:
  "read_notebook demo_env (py ''./a.ipynb'') =
     Inr \<lparr>cells = [\<lparr>cell_type = py ''markdown'', source = py ''Helllo wrold''\<rparr>]\<rparr>
   \<and> py ''Helllo'' \<notin> dictionary demo_env
   \<and> py ''wrold'' \<notin> dictionary demo_env
   \<and> spell_check_notebook_folding demo_checks demo_env (py ''./a.ipynb'') [] \<noteq>
       (Inr [(py ''./a.ipynb'', {py ''Helllo'', py ''wrold''})], [])"
proof -
  have run: "spell_check_notebook_folding demo_checks demo_env (py ''./a.ipynb'') [] =
               (Inr [(py ''./a.ipynb'', {py ''helllo'', py ''wrold''})], [])"
  proof (rule folding_helllo_wrold)
    show "read_notebook demo_env (py ''./a.ipynb'') =
            Inr \<lparr>cells = [\<lparr>cell_type = py ''markdown'', source = py ''Helllo wrold''\<rparr>]\<rparr>"
      by (rule demo_read_a)
    show "demo_checks (py ''Helllo'')" and "demo_checks (py ''wrold'')"
      by (simp_all add: demo_checks_def py_def)
    show "py ''helllo'' \<notin> dictionary demo_env" and "py ''wrold'' \<notin> dictionary demo_env"
      by (simp_all add: demo_dictionary py_def)
  qed
  have differ: "{py ''helllo'', py ''wrold''} \<noteq> {py ''Helllo'', py ''wrold''}"
  proof
    assume "{py ''helllo'', py ''wrold''} = {py ''Helllo'', py ''wrold''}"
    then have "py ''Helllo'' \<in> {py ''helllo'', py ''wrold''}"
      by simp
    then show False
      by (simp add: py_def)
  qed
  show ?thesis
    using run differ by (simp add: demo_read_a demo_dictionary py_neq)
qed

text \<open>
  Claim C3. For a document none of whose cells has the type tag "markdown",
  \<open>spell_check_notebook\<close> returns the empty mapping, whatever the code cells and other
  cells contain.
\<close>

theorem no_markdown_no_report:
  assumes "read_notebook e filepath = Inr nb"
    and "\<forall>c \<in> set (cells nb). cell_type c \<noteq> py ''markdown''"
  shows "spell_check_notebook e filepath ignore_words = (Inr [], ignore_words)"
proof -
  have "filter (\<lambda>c. cell_type c = py ''markdown'') (cells nb) = []"
    using assms(2) by (simp add: filter_empty_conv)
  then show ?thesis
    using assms(1) by (simp add: spell_check_notebook_eq unknown_tokens_def single_def)
qed

theorem no_markdown_no_report_witness:
  "spell_check_notebook demo_env (py ''./sub/c.ipynb'') [] = (Inr [], [])"
  using no_markdown_no_report [OF demo_read_c, of "[]"]
  by (simp add: py_neq)

text \<open>
  Claim C4. For a document in which every token of every markdown cell (punctuation
  removed, split at whitespace) is in the ignore list, \<open>spell_check_notebook\<close> returns
  the empty mapping.
\<close>

theorem all_ignored_no_report:
  assumes "read_notebook e filepath = Inr nb"
    and "\<forall>c \<in> set (cells nb). cell_type c = py ''markdown'' \<longrightarrow>
           (\<forall>t \<in> set (tokens (source c)). t \<in> set ignore_words)"
  shows "spell_check_notebook e filepath ignore_words = (Inr [], ignore_words)"
proof -
  have "unknown_tokens e ignore_words nb = {}"
    using assms(2) by (auto simp: unknown_tokens_def)
  then show ?thesis
    using assms(1) by (simp add: spell_check_notebook_eq single_def)
qed

theorem all_ignored_no_report_witness:
  "spell_check_notebook demo_env (py ''./a.ipynb'') [py ''Helllo'', py ''wrold''] =
     (Inr [], [py ''Helllo'', py ''wrold''])"
  using all_ignored_no_report [OF demo_read_a, of "[py ''Helllo'', py ''wrold'']"]
  by (simp add: tokens_helllo_wrold)

text \<open>
  Claim C10. The mapping \<open>spell_check_notebook\<close> returns has at most one key; when it has
  one, the key is the \<open>filepath\<close> argument and its value is a non-empty (finite) set of
  words: an empty set is never stored.
\<close>

theorem notebook_report_shape:
  assumes "spell_check_notebook e filepath ignore_words = (Inr d, ignore_words')"
  shows "length d \<le> 1
         \<and> (d = [] \<or> (\<exists>ws. d = [(filepath, ws)] \<and> ws \<noteq> {} \<and> finite ws))"
proof (cases "read_notebook e filepath")
  case (Inl err)
  then show ?thesis
    using assms by (simp add: spell_check_notebook_eq)
next
  case (Inr nb)
  then have "d = single filepath (unknown_tokens e ignore_words nb)"
    using assms by (auto simp: spell_check_notebook_eq)
  then show ?thesis
    by (simp add: single_def finite_unknown_tokens)
qed

theorem notebook_report_shape_witness:
  "\<exists>ws. [(py ''./a.ipynb'', {py ''Helllo'', py ''wrold''})] = [(py ''./a.ipynb'', ws)]
        \<and> ws \<noteq> {} \<and> finite ws"
  using notebook_report_shape [OF demo_check_a] by simp

section \<open>The claims about \<open>spell_check_directory\<close>\<close>

text \<open>
  Claim C5. When the traversal of \<open>spell_check_directory\<close> finishes with the aggregate
  mapping \<open>d\<close> (whose keys are pairwise different documents): if \<open>d\<close> is not empty, the
  function prints, for each document of \<open>d\<close> in order, the one line
  "Misspelled words in <path>: <word1>, <word2>, ..." (the words of the document's set
  in the order the set yields them, joined by ", ") and nothing else, and ends the process
  with exit status 1; if \<open>d\<close> is empty it prints nothing and returns normally, which gives
  exit status 0. When no file of the tree ends in ".ipynb" the run is of the second
  kind. No run has an exit status other than 0 or 1.
\<close>

theorem spell_check_directory_report_and_exit:
  "(\<forall>d ignore_words'.
      check_walk e (walk e directory) [] ignore_words = (Inr d, ignore_words') \<longrightarrow>
        distinct (map fst d)
        \<and> (d \<noteq> [] \<longrightarrow>
              printed (spell_check_directory e directory ignore_words) =
                map (\<lambda>(filepath, words).
                       py ''Misspelled words in '' @ filepath @ py '': ''
                         @ join (py '', '') (set_iter e words)) d
              \<and> outcome (spell_check_directory e directory ignore_words) = Exit 1
              \<and> exit_status (outcome (spell_check_directory e directory ignore_words)) = 1)
        \<and> (d = [] \<longrightarrow>
              printed (spell_check_directory e directory ignore_words) = []
              \<and> outcome (spell_check_directory e directory ignore_words) = Returned
              \<and> exit_status (outcome (spell_check_directory e directory ignore_words)) = 0))
   \<and> ((\<forall>(subdir, dirs, files) \<in> set (walk e directory).
          \<forall>file \<in> set files. \<not> endswith file (py ''.ipynb'')) \<longrightarrow>
        printed (spell_check_directory e directory ignore_words) = []
        \<and> outcome (spell_check_directory e directory ignore_words) = Returned
        \<and> exit_status (outcome (spell_check_directory e directory ignore_words)) = 0)
   \<and> exit_status (outcome (spell_check_directory e directory ignore_words)) \<in> {0, 1}"
proof (intro conjI allI impI)
  fix d ignore_words'
  assume w: "check_walk e (walk e directory) [] ignore_words = (Inr d, ignore_words')"
  then have "check_paths e (notebook_paths (walk e directory)) [] ignore_words = (Inr d, ignore_words')"
    by (simp add: check_walk_paths)
  then show "distinct (map fst d)"
    by (rule check_paths_distinct) simp
  {
    assume "d \<noteq> []"
    then show "printed (spell_check_directory e directory ignore_words) =
                map (\<lambda>(filepath, words).
                       py ''Misspelled words in '' @ filepath @ py '': ''
                         @ join (py '', '') (set_iter e words)) d"
      and "outcome (spell_check_directory e directory ignore_words) = Exit 1"
      and "exit_status (outcome (spell_check_directory e directory ignore_words)) = 1"
      using w by (simp_all add: spell_check_directory_def report_line_def split_def)
  }
  {
    assume "d = []"
    then show "printed (spell_check_directory e directory ignore_words) = []"
      and "outcome (spell_check_directory e directory ignore_words) = Returned"
      and "exit_status (outcome (spell_check_directory e directory ignore_words)) = 0"
      using w by (simp_all add: spell_check_directory_def)
  }
next
  assume "\<forall>(subdir, dirs, files) \<in> set (walk e directory).
            \<forall>file \<in> set files. \<not> endswith file (py ''.ipynb'')"
  then have "notebook_paths (walk e directory) = []"
    by (rule no_notebook_paths)
  then have w: "check_walk e (walk e directory) [] ignore_words = (Inr [], ignore_words)"
    by (simp add: check_walk_paths)
  show "printed (spell_check_directory e directory ignore_words) = []"
    and "outcome (spell_check_directory e directory ignore_words) = Returned"
    and "exit_status (outcome (spell_check_directory e directory ignore_words)) = 0"
    using w by (simp_all add: spell_check_directory_def)
next
  show "exit_status (outcome (spell_check_directory e directory ignore_words)) \<in> {0, 1}"
    by (simp add: spell_check_directory_def split: prod.splits sum.splits)
qed

theorem spell_check_directory_report_and_exit_witness:
  "printed (spell_check_directory demo_env (py ''.'') []) =
     [py ''Misspelled words in ./a.ipynb: wrold, Helllo'']
   \<and> outcome (spell_check_directory demo_env (py ''.'') []) = Exit 1
   \<and> printed (spell_check_directory demo_env (py ''docs'') []) = []
   \<and> outcome (spell_check_directory demo_env (py ''docs'') []) = Returned"
proof -
  have no_nb: "\<forall>(subdir, dirs, files) \<in> set (walk demo_env (py ''docs'')).
                 \<forall>file \<in> set files. \<not> endswith file (py ''.ipynb'')"
    by (simp add: demo_env_def endswith_def py_def)
  have line: "py ''Misspelled words in '' @ py ''./a.ipynb'' @ py '': ''
                @ join (py '', '') (set_iter demo_env {py ''Helllo'', py ''wrold''}) =
              py ''Misspelled words in ./a.ipynb: wrold, Helllo''"
    by (simp add: demo_env_def py_def)
  show ?thesis
    using spell_check_directory_report_and_exit [of demo_env "py ''.''" "[]"] spell_check_directory_report_and_exit [of demo_env "py ''docs''" "[]"]
      demo_check_walk no_nb line
    by simp
qed

text \<open>
  Claim C6. A path is a key of a report only if the document at that path has a markdown
  cell with a token that is neither in the spelling dictionary nor in the ignore list.
  This holds for the mapping every notebook check returns (whose only possible key is the
  path checked); it is preserved by the traversal of any list of directories from any
  aggregate that satisfies it, hence holds for every aggregate the traversal reaches; and
  the final aggregate of a directory has as keys exactly the visited notebook paths that
  have such a token. So with one misspelled and one correct document the final aggregate
  holds the misspelled document's path only.
\<close>

theorem report_only_misspelled_documents:
  "(\<forall>filepath r ignore_words'.
      spell_check_notebook e filepath ignore_words = (Inr r, ignore_words') \<longrightarrow>
        (\<forall>p \<in> fst ` set r. p = filepath \<and> has_unknown_token e ignore_words p))
   \<and> (\<forall>triples d d' ignore_words'.
        (\<forall>p \<in> fst ` set d. has_unknown_token e ignore_words p)
        \<and> check_walk e triples d ignore_words = (Inr d', ignore_words') \<longrightarrow>
          (\<forall>p \<in> fst ` set d'. has_unknown_token e ignore_words p))
   \<and> (\<forall>d ignore_words'.
        check_walk e (walk e directory) [] ignore_words = (Inr d, ignore_words') \<longrightarrow>
          fst ` set d =
            {p \<in> set (notebook_paths (walk e directory)). has_unknown_token e ignore_words p})"
proof (intro conjI allI impI)
  fix filepath r ignore_words'
  assume a: "spell_check_notebook e filepath ignore_words = (Inr r, ignore_words')"
  show "\<forall>p \<in> fst ` set r. p = filepath \<and> has_unknown_token e ignore_words p"
  proof (cases "read_notebook e filepath")
    case (Inl err)
    then show ?thesis using a by (simp add: spell_check_notebook_eq)
  next
    case (Inr nb)
    then have "r = single filepath (unknown_tokens e ignore_words nb)"
      using a by (auto simp: spell_check_notebook_eq)
    then show ?thesis
      using Inr by (simp add: single_def has_unknown_token_def)
  qed
next
  fix triples d d' ignore_words'
  assume a: "(\<forall>p \<in> fst ` set d. has_unknown_token e ignore_words p)
             \<and> check_walk e triples d ignore_words = (Inr d', ignore_words')"
  then have "check_paths e (notebook_paths triples) d ignore_words = (Inr d', ignore_words')"
    by (simp add: check_walk_paths)
  then have "fst ` set d' =
      fst ` set d \<union> {p \<in> set (notebook_paths triples). has_unknown_token e ignore_words p}"
    by (rule check_paths_keys)
  then show "\<forall>p \<in> fst ` set d'. has_unknown_token e ignore_words p"
    using a by auto
next
  fix d ignore_words'
  assume "check_walk e (walk e directory) [] ignore_words = (Inr d, ignore_words')"
  then have "check_paths e (notebook_paths (walk e directory)) [] ignore_words =
               (Inr d, ignore_words')"
    by (simp add: check_walk_paths)
  then have "fst ` set d = fst ` set ([] :: report)
      \<union> {p \<in> set (notebook_paths (walk e directory)). has_unknown_token e ignore_words p}"
    by (rule check_paths_keys)
  then show "fst ` set d =
      {p \<in> set (notebook_paths (walk e directory)). has_unknown_token e ignore_words p}"
    by simp
qed

theorem report_only_misspelled_documents_witness:
  "has_unknown_token demo_env [] (py ''./a.ipynb'')
   \<and> \<not> has_unknown_token demo_env [] (py ''./sub/b.ipynb'')
   \<and> fst ` set [(py ''./a.ipynb'', {py ''Helllo'', py ''wrold''})] =
       {p \<in> set (notebook_paths (walk demo_env (py ''.''))). has_unknown_token demo_env [] p}"
proof -
  have "has_unknown_token demo_env [] (py ''./a.ipynb'')"
    by (simp add: has_unknown_token_def demo_read_a demo_unknown_a)
  moreover have "\<not> has_unknown_token demo_env [] (py ''./sub/b.ipynb'')"
    by (simp add: has_unknown_token_def demo_read_b demo_unknown_b)
  ultimately show ?thesis
    using report_only_misspelled_documents [of demo_env "[]" "py ''.''"] demo_check_walk by blast
qed

text \<open>
  Claim C7. An error raised while opening or parsing a document is not caught: \<open>spell_check_notebook\<close>
  raises it, and when the traversal reaches the first document that cannot be read,
  \<open>spell_check_directory\<close> ends with that error and has printed nothing, whatever the
  documents visited before contained and whatever documents would have followed.
\<close>

theorem read_error_propagates:
  "(read_notebook e filepath = Inl err \<longrightarrow>
      spell_check_notebook e filepath ignore_words = (Inl err, ignore_words))
   \<and> (notebook_paths (walk e directory) = qs @ p # rs
        \<and> (\<forall>q \<in> set qs. \<not> isl (read_notebook e q))
        \<and> read_notebook e p = Inl err \<longrightarrow>
      outcome (spell_check_directory e directory ignore_words) = Raised err
      \<and> printed (spell_check_directory e directory ignore_words) = [])"
proof (intro conjI impI)
  assume "read_notebook e filepath = Inl err"
  then show "spell_check_notebook e filepath ignore_words = (Inl err, ignore_words)"
    by (simp add: spell_check_notebook_eq)
next
  assume a: "notebook_paths (walk e directory) = qs @ p # rs
        \<and> (\<forall>q \<in> set qs. \<not> isl (read_notebook e q))
        \<and> read_notebook e p = Inl err"
  then have w: "check_walk e (walk e directory) [] ignore_words = (Inl err, ignore_words)"
    by (simp add: check_walk_paths check_paths_error)
  show "outcome (spell_check_directory e directory ignore_words) = Raised err"
    using w by (simp add: spell_check_directory_def)
  show "printed (spell_check_directory e directory ignore_words) = []"
    using w by (simp add: spell_check_directory_def)
qed

theorem read_error_propagates_witness:
  "spell_check_notebook broken_env (py ''./sub/b.ipynb'') [] =
     (Inl (ParseError (py ''./sub/b.ipynb'')), [])
   \<and> outcome (spell_check_directory broken_env (py ''.'') []) =
       Raised (ParseError (py ''./sub/b.ipynb''))
   \<and> printed (spell_check_directory broken_env (py ''.'') []) = []"
proof -
  have paths: "notebook_paths (walk broken_env (py ''.'')) =
                 [py ''./a.ipynb''] @ py ''./sub/b.ipynb'' # [py ''./sub/c.ipynb'']"
    using demo_paths by (simp add: broken_env_def)
  have a: "\<forall>q \<in> set [py ''./a.ipynb'']. \<not> isl (read_notebook broken_env q)"
    by (simp add: broken_env_def demo_env_def py_def)
  have b: "read_notebook broken_env (py ''./sub/b.ipynb'') =
             Inl (ParseError (py ''./sub/b.ipynb''))"
    by (simp add: broken_env_def)
  show ?thesis
    using read_error_propagates [of broken_env "py ''./sub/b.ipynb''" "ParseError (py ''./sub/b.ipynb'')" "[]"
                 "py ''.''" "[py ''./a.ipynb'']" "py ''./sub/b.ipynb''" "[py ''./sub/c.ipynb'']"]
      paths a b
    by blast
qed

text \<open>
  Claim C8. Neither \<open>spell_check_notebook\<close> nor \<open>spell_check_directory\<close> changes the
  ignore-word list: after any call, also one that raises or exits, the list has the value
  it had before.
\<close>

theorem ignore_words_unchanged:
  "snd (spell_check_notebook e filepath ignore_words) = ignore_words
   \<and> ignore_after (spell_check_directory e directory ignore_words) = ignore_words"
proof
  show "snd (spell_check_notebook e filepath ignore_words) = ignore_words"
    by (simp add: spell_check_notebook_eq split: sum.splits)
  have "snd (check_walk e (walk e directory) [] ignore_words) = ignore_words"
    by (rule check_walk_ignore)
  then show "ignore_after (spell_check_directory e directory ignore_words) = ignore_words"
    by (auto simp: spell_check_directory_def split: prod.splits sum.splits)
qed

theorem ignore_words_unchanged_witness:
  "snd (spell_check_notebook demo_env (py ''./a.ipynb'') [py ''wrold'']) = [py ''wrold'']
   \<and> ignore_after (spell_check_directory broken_env (py ''.'') [py ''wrold'']) = [py ''wrold'']"
  using ignore_words_unchanged [of demo_env "py ''./a.ipynb''" "[py ''wrold'']"]
    ignore_words_unchanged [of broken_env _ "[py ''wrold'']" "py ''.''"]
  by simp

end
